theory Spec2Isabelle
  imports Main "HOL-Library.Word" "HOL-Library.Sublist"
begin

section \<open>JavaScript strings\<close>

text \<open>
  A JavaScript string is a sequence of UTF-16 code units; \<open>length\<close> is the
  source's \<^verbatim>\<open>.length\<close>. \<open>js\<close> embeds an ASCII literal; code units beyond
  ASCII (the en dash of the aggregate message, the bullet of the knowledge base) are
  written as numbers.
\<close>

type_synonym jsstring = "16 word list"

definition js :: "string \<Rightarrow> jsstring" where
  "js = map of_char"

text \<open>\<^verbatim>\<open>s.includes(t)\<close>: \<open>t\<close> occurs in \<open>s\<close> as a contiguous run of code units.\<close>

fun js_includes :: "jsstring \<Rightarrow> jsstring \<Rightarrow> bool" where
  "js_includes [] t = (t = [])"
| "js_includes (c # s) t = (prefix t (c # s) \<or> js_includes s t)"

text \<open>\<^verbatim>\<open>xs.join(sep)\<close> on an array of strings.\<close>

fun js_join :: "jsstring \<Rightarrow> jsstring list \<Rightarrow> jsstring" where
  "js_join sep [] = []"
| "js_join sep [x] = x"
| "js_join sep (x # y # ys) = x @ sep @ js_join sep (y # ys)"

text \<open>
  \<^verbatim>\<open>s.trim()\<close> removes leading and trailing white space and line terminators
  (ECMAScript's WhiteSpace and LineTerminator productions; all lie in the BMP).
\<close>

definition isWhiteSpace :: "16 word \<Rightarrow> bool" where
  "isWhiteSpace c \<longleftrightarrow>
     c = 0x0009 \<or> c = 0x000A \<or> c = 0x000B \<or> c = 0x000C \<or> c = 0x000D \<or>
     c = 0x0020 \<or> c = 0x00A0 \<or> c = 0x1680 \<or> (0x2000 \<le> c \<and> c \<le> 0x200A) \<or>
     c = 0x2028 \<or> c = 0x2029 \<or> c = 0x202F \<or> c = 0x205F \<or> c = 0x3000 \<or>
     c = 0xFEFF"

definition js_trim :: "jsstring \<Rightarrow> jsstring" where
  "js_trim s = rev (dropWhile isWhiteSpace (rev (dropWhile isWhiteSpace s)))"

section \<open>Errors and their classification (utils/geminiAI)\<close>

text \<open>
  A thrown \<^verbatim>\<open>Error\<close> object: the classification reads only \<^verbatim>\<open>err.message\<close>,
  a string. The name is kept so that "the same error" means more than "the same
  message". A thrown value that is no object with a message string is outside the model.
\<close>

record js_error =
  name :: jsstring
  message :: jsstring

text \<open>\<^verbatim>\<open>new Error(msg)\<close>.\<close>

definition new_Error :: "jsstring \<Rightarrow> js_error" where
  "new_Error msg = \<lparr>name = js ''Error'', message = msg\<rparr>"

definition isQuotaError :: "js_error \<Rightarrow> bool" where
  "isQuotaError err \<longleftrightarrow>
     js_includes (message err) (js ''429'') \<or>
     js_includes (message err) (js ''Too Many'') \<or>
     js_includes (message err) (js ''quota'') \<or>
     js_includes (message err) (js ''RESOURCE_EXHAUSTED'')"

definition isNotFoundError :: "js_error \<Rightarrow> bool" where
  "isNotFoundError err \<longleftrightarrow>
     js_includes (message err) (js ''404'') \<or> js_includes (message err) (js ''not found'')"

text \<open>
  The source has no classification type. The three classes of the cascade are read off
  the test \<^verbatim>\<open>isQuotaError(err) || isNotFoundError(err)\<close> of \<^verbatim>\<open>tryModels\<close>, in
  the order in which \<^verbatim>\<open>||\<close> evaluates it: the quota test first, the not-found test
  only when it fails, and the rethrow when both fail.
\<close>

datatype classification = TransientQuota | NotFound | Fatal

definition classify :: "js_error \<Rightarrow> classification" where
  "classify err =
     (if isQuotaError err then TransientQuota
      else if isNotFoundError err then NotFound
      else Fatal)"

section \<open>The model cascade: \<^verbatim>\<open>tryModels\<close>\<close>

text \<open>
  The operation of the model is the body of the \<^verbatim>\<open>try\<close> block for one candidate,
  \<^verbatim>\<open>fn(genAI.getGenerativeModel({ model: modelName }), modelName)\<close>: a call into the
  client library and the network, which runs in a world state \<open>'s\<close> and either
  resolves with a result (\<open>Inr\<close>) or rejects with an error (\<open>Inl\<close>). Each
  \<^verbatim>\<open>await\<close> is a sequencing of states. Console output is not modelled.
\<close>

type_synonym ('s, 'r) operation = "jsstring \<Rightarrow> 's \<Rightarrow> (js_error + 'r) \<times> 's"

text \<open>The object \<^verbatim>\<open>{ result, modelName }\<close> that a successful cascade returns.\<close>

record 'r winner =
  result :: 'r
  modelName :: jsstring

text \<open>
  \<^verbatim>\<open>tryModels\<close> throws at two places: \<open>Rethrown\<close> is \<^verbatim>\<open>throw err\<close> in the
  catch block, with the very error the operation threw; \<open>Exhausted\<close> is the
  \<^verbatim>\<open>throw new Error(...)\<close> after the loop. \<open>thrown\<close> is the error a caller catches.
\<close>

datatype cascade_failure = Rethrown js_error | Exhausted js_error

fun thrown :: "cascade_failure \<Rightarrow> js_error" where
  "thrown (Rethrown e) = e"
| "thrown (Exhausted e) = e"

text \<open>
  The entry pushed on \<^verbatim>\<open>errors\<close> for a skipped candidate \<open>m\<close> (the loop
  variable \<^verbatim>\<open>modelName\<close>).
\<close>

definition skip_detail :: "jsstring \<Rightarrow> js_error \<Rightarrow> jsstring" where
  "skip_detail m err =
     m @ js '': '' @
     (if js_includes (message err) (js ''429'') then js ''quota exceeded'' else js ''not found'')"

text \<open>The error thrown when the loop ends: header, details, hint.\<close>

definition all_exhausted_message :: "jsstring list \<Rightarrow> jsstring" where
  "all_exhausted_message errors =
     js ''All Gemini models quota-exceeded. Please wait a minute and try again.'' @ [0x000A] @
     js ''Details: '' @ js_join (js '' | '') errors @ [0x000A] @
     js ''Free tier allows 15'' @ [0x2013] @
     js ''30 req/min. If you sent many requests in a row, wait 60 seconds.''"

fun tryModels_loop ::
  "('s, 'r) operation \<Rightarrow> jsstring list \<Rightarrow> jsstring list \<Rightarrow> 's
     \<Rightarrow> (cascade_failure + 'r winner) \<times> 's" where
  "tryModels_loop fn errors [] s =
     (Inl (Exhausted (new_Error (all_exhausted_message errors))), s)"
| "tryModels_loop fn errors (m # models) s =
     (case fn m s of
        (Inr res, s') \<Rightarrow> (Inr \<lparr>result = res, modelName = m\<rparr>, s')
      | (Inl err, s') \<Rightarrow>
          if isQuotaError err \<or> isNotFoundError err
          then tryModels_loop fn (errors @ [skip_detail m err]) models s'
          else (Inl (Rethrown err), s'))"

definition tryModels ::
  "jsstring list \<Rightarrow> ('s, 'r) operation \<Rightarrow> 's \<Rightarrow> (cascade_failure + 'r winner) \<times> 's" where
  "tryModels models fn s = tryModels_loop fn [] models s"

definition VISION_MODELS :: "jsstring list" where
  "VISION_MODELS =
     [js ''gemini-2.0-flash'', js ''gemini-2.0-flash-lite'', js ''gemini-2.5-flash'',
      js ''gemini-flash-lite-latest'']"

definition CHAT_MODELS :: "jsstring list" where
  "CHAT_MODELS =
     [js ''gemini-2.0-flash'', js ''gemini-2.0-flash-lite'', js ''gemini-2.5-flash'',
      js ''gemini-flash-lite-latest'']"

text \<open>
  Two devices to state properties of a run. \<open>traced fn\<close> is \<open>fn\<close> with a log of
  the candidates it was invoked on, in order; it returns what \<open>fn\<close> returns.
  \<open>fail_run P fn ms s\<close> invokes \<open>fn\<close> on the candidates \<open>ms\<close> one after the other
  from state \<open>s\<close>: when every one of them fails with an error satisfying \<open>P\<close> it is
  the list of these errors and the state reached, and \<open>None\<close> otherwise.
\<close>

definition traced :: "('s, 'r) operation \<Rightarrow> ('s \<times> jsstring list, 'r) operation" where
  "traced fn m st = (case fn m (fst st) of (r, s') \<Rightarrow> (r, (s', snd st @ [m])))"

fun fail_run ::
  "(js_error \<Rightarrow> bool) \<Rightarrow> ('s, 'r) operation \<Rightarrow> jsstring list \<Rightarrow> 's
     \<Rightarrow> (js_error list \<times> 's) option" where
  "fail_run P fn [] s = Some ([], s)"
| "fail_run P fn (m # ms) s =
     (case fn m s of
        (Inr res, s') \<Rightarrow> None
      | (Inl err, s') \<Rightarrow>
          if P err
          then (case fail_run P fn ms s' of
                  None \<Rightarrow> None
                | Some (errs, s'') \<Rightarrow> Some (err # errs, s''))
          else None)"

definition skippable :: "js_error \<Rightarrow> bool" where
  "skippable err \<longleftrightarrow> isQuotaError err \<or> isNotFoundError err"

section \<open>The two callers of the cascade (utils/geminiAI)\<close>

text \<open>
  \<^verbatim>\<open>!process.env.GEMINI_API_KEY || process.env.GEMINI_API_KEY === 'YOUR_GEMINI_API_KEY_HERE'\<close>:
  an environment variable is a string or is absent, and the empty string is falsy.
\<close>

definition key_missing :: "jsstring option \<Rightarrow> bool" where
  "key_missing key =
     (case key of
        None \<Rightarrow> True
      | Some k \<Rightarrow> k = [] \<or> k = js ''YOUR_GEMINI_API_KEY_HERE'')"

text \<open>One turn of the conversation history sent by the browser.\<close>

record turn =
  role :: jsstring
  turn_text :: jsstring

text \<open>
  The history handed to \<^verbatim>\<open>startChat\<close>: the turns whose role is \<^verbatim>\<open>user\<close> or
  \<^verbatim>\<open>model\<close> (the \<^verbatim>\<open>map\<close> that follows only reshapes each turn).
\<close>

definition chat_history :: "turn list \<Rightarrow> turn list" where
  "chat_history conversationHistory =
     filter (\<lambda>m. role m = js ''user'' \<or> role m = js ''model'') conversationHistory"

text \<open>
  \<^verbatim>\<open>getChatbotResponse\<close>. The library calls are parameters: \<open>sendMessage m h u\<close> is
  \<^verbatim>\<open>startChat({ history: h }).sendMessage(u)\<close> on model \<open>m\<close> with the fixed system
  instruction, and \<open>responseText\<close> is \<^verbatim>\<open>result.response.text()\<close>, which may throw.
\<close>

definition getChatbotResponse ::
  "jsstring option \<Rightarrow> (jsstring \<Rightarrow> turn list \<Rightarrow> jsstring \<Rightarrow> 's \<Rightarrow> (js_error + 'r) \<times> 's)
     \<Rightarrow> ('r \<Rightarrow> js_error + jsstring) \<Rightarrow> jsstring \<Rightarrow> turn list \<Rightarrow> 's
     \<Rightarrow> (js_error + jsstring) \<times> 's" where
  "getChatbotResponse key sendMessage responseText userMessage conversationHistory s =
     (if key_missing key
      then (Inl (new_Error (js ''GEMINI_API_KEY not configured'')), s)
      else
        (case tryModels CHAT_MODELS
                (\<lambda>m. sendMessage m (chat_history conversationHistory) userMessage) s of
           (Inl failure, s') \<Rightarrow> (Inl (thrown failure), s')
         | (Inr w, s') \<Rightarrow> (responseText (result w), s')))"

text \<open>
  \<^verbatim>\<open>analyzeCTScan\<close> up to the cascade. Parameters: \<open>readFileSync\<close> reads the image
  and may throw; \<open>imagePart\<close> builds the inline part from the path (its MIME type) and
  the bytes; \<open>generateContent m part\<close> is \<^verbatim>\<open>generateContent([VISION_PROMPT, part])\<close>
  on model \<open>m\<close>; \<open>report\<close> is everything after the cascade (reading the text, parsing
  the JSON, the defaults and the clock), which involves floating point and is left
  abstract.
\<close>

definition analyzeCTScan ::
  "jsstring option \<Rightarrow> (jsstring \<Rightarrow> 's \<Rightarrow> (js_error + 'b) \<times> 's) \<Rightarrow> (jsstring \<Rightarrow> 'b \<Rightarrow> 'p)
     \<Rightarrow> (jsstring \<Rightarrow> 'p \<Rightarrow> 's \<Rightarrow> (js_error + 'r) \<times> 's)
     \<Rightarrow> ('r winner \<Rightarrow> 's \<Rightarrow> (js_error + 'a) \<times> 's) \<Rightarrow> jsstring \<Rightarrow> 's
     \<Rightarrow> (js_error + 'a) \<times> 's" where
  "analyzeCTScan key readFileSync imagePart generateContent report imagePath s =
     (if key_missing key
      then (Inl (new_Error (js (''GEMINI_API_KEY is not configured. Please add your API key '' @
              ''to backend/.env. Get a FREE key at https://aistudio.google.com/app/apikey''))), s)
      else
        (case readFileSync imagePath s of
           (Inl err, s1) \<Rightarrow> (Inl err, s1)
         | (Inr imageBuffer, s1) \<Rightarrow>
             (case tryModels VISION_MODELS
                     (\<lambda>m. generateContent m (imagePart imagePath imageBuffer)) s1 of
                (Inl failure, s2) \<Rightarrow> (Inl (thrown failure), s2)
              | (Inr w, s2) \<Rightarrow> report w s2)))"

section \<open>The chat route (routes/chatbot)\<close>

record kb_entry =
  kb_keywords :: "jsstring list"
  response :: jsstring

definition knowledgeBase :: "kb_entry list" where
  "knowledgeBase =
     [\<lparr>kb_keywords = [js ''what is'', js ''lung nodule'', js ''pulmonary nodule''],
       response =
         js ''A lung nodule (or pulmonary nodule) is a small, round or oval-shaped growth in the lung. '' @
         js ''Most lung nodules are benign (non-cancerous), but some can be malignant. They are typically '' @
         js ''detected on chest X-rays or CT scans and are usually smaller than 3 cm in diameter.''\<rparr>,
      \<lparr>kb_keywords = [js ''benign'', js ''non-cancerous'', js ''not cancer''],
       response =
         js ''Benign means non-cancerous. A benign nodule will not spread to other parts of the body. '' @
         js ''However, it still requires monitoring through regular follow-up scans. Common causes include '' @
         js ''old infections, inflammation, or harmless growths. Your doctor will recommend a monitoring schedule.''\<rparr>,
      \<lparr>kb_keywords = [js ''malignant'', js ''cancerous'', js ''cancer'', js ''lung cancer''],
       response =
         js ''Malignant means cancerous. A malignant nodule has the potential to spread to other parts of the body. '' @
         js ''If detected, further diagnostic tests such as biopsy, PET scan, or additional imaging will be needed. '' @
         js ''Early detection significantly improves treatment outcomes. Please consult an oncologist immediately.''\<rparr>,
      \<lparr>kb_keywords = [js ''causes'', js ''why'', js ''risk factors'', js ''smoking''],
       response =
         js ''Lung nodules can be caused by various factors including: smoking (primary risk factor), '' @
         js ''exposure to asbestos or radon, previous lung infections (tuberculosis, fungal infections), '' @
         js ''inflammation, scar tissue, or benign tumors.''\<rparr>,
      \<lparr>kb_keywords = [js ''symptoms'', js ''signs'', js ''feel'', js ''pain''],
       response =
         js ''Most small lung nodules cause NO symptoms and are found incidentally during imaging for other reasons. '' @
         js ''Larger nodules or cancerous ones may cause: persistent cough, coughing up blood, chest pain, '' @
         js ''shortness of breath, unexplained weight loss, or fatigue.''\<rparr>,
      \<lparr>kb_keywords = [js ''treatment'', js ''cure'', js ''therapy'', js ''surgery''],
       response =
         js ''Treatment depends on the nodule characteristics:'' @
         [0x000A, 0x000A] @
         [0x2022] @
         js '' Benign small nodules: Regular monitoring with CT scans'' @
         [0x000A] @
         [0x2022] @
         js '' Suspicious nodules: May require biopsy or PET scan'' @
         [0x000A] @
         [0x2022] @
         js '' Malignant nodules: Surgery, radiation, chemotherapy, or targeted therapy''\<rparr>,
      \<lparr>kb_keywords = [js ''ct scan'', js ''x-ray'', js ''imaging''],
       response =
         js ''A CT scan uses X-rays to create detailed cross-sectional images of your lungs. '' @
         js ''It can detect nodules as small as 1-2mm. The scan is painless and typically takes 5-10 minutes.''\<rparr>,
      \<lparr>kb_keywords = [js ''hello'', js ''hi'', js ''hey''],
       response =
         js ''Hello! I'm your AI Medical Assistant powered by Google Gemini. '' @
         js ''I can answer questions about pulmonary nodules, CT scans, treatment options, and more. '' @
         js ''How can I help you today?''\<rparr>]"

definition defaultFallbackResponse :: jsstring where
  "defaultFallbackResponse =
     js ''I'm sorry, I couldn't process that with the AI engine right now. '' @
     js ''Please ask about lung nodules, symptoms, treatments, CT scans, or prevention strategies.''"

text \<open>
  \<^verbatim>\<open>getRuleBasedResponse\<close>: the response of the first entry one of whose keywords
  occurs in the lower-cased, trimmed message. \<^verbatim>\<open>toLowerCase\<close> follows the Unicode
  case tables, which are no part of the repository: it is a parameter.
\<close>

definition getRuleBasedResponse :: "(jsstring \<Rightarrow> jsstring) \<Rightarrow> jsstring \<Rightarrow> jsstring" where
  "getRuleBasedResponse toLowerCase msg =
     (let lower = js_trim (toLowerCase msg) in
      case find (\<lambda>entry. list_ex (\<lambda>k. js_includes lower (toLowerCase k)) (kb_keywords entry))
             knowledgeBase of
        Some entry \<Rightarrow> response entry
      | None \<Rightarrow> defaultFallbackResponse)"

text \<open>
  What the handler sends: the HTTP status (200 unless \<^verbatim>\<open>res.status\<close> sets it) and
  the fields of the JSON body, absent ones as \<open>None\<close>.
\<close>

record http_reply =
  status :: nat
  success :: bool
  error :: "jsstring option"
  reply :: jsstring
  engine :: "jsstring option"
  timestamp :: "jsstring option"

text \<open>
  \<^verbatim>\<open>router.post('/chatbot', ...)\<close>. The body's \<^verbatim>\<open>message\<close> is a string or absent
  and \<^verbatim>\<open>history\<close> a list of turns or absent (then \<^verbatim>\<open>[]\<close>); a body of another
  shape makes the handler throw into its outer \<^verbatim>\<open>catch\<close> (status 500), which these
  types exclude. \<open>isoNow\<close> reads the clock for the timestamp.
\<close>

definition post_chatbot ::
  "jsstring option \<Rightarrow> (jsstring \<Rightarrow> jsstring)
     \<Rightarrow> (jsstring \<Rightarrow> turn list \<Rightarrow> jsstring \<Rightarrow> 's \<Rightarrow> (js_error + 'r) \<times> 's)
     \<Rightarrow> ('r \<Rightarrow> js_error + jsstring) \<Rightarrow> ('s \<Rightarrow> jsstring)
     \<Rightarrow> jsstring option \<Rightarrow> turn list option \<Rightarrow> 's \<Rightarrow> http_reply \<times> 's" where
  "post_chatbot key toLowerCase sendMessage responseText isoNow body_message body_history s =
     (let history = (case body_history of None \<Rightarrow> [] | Some h \<Rightarrow> h) in
      case body_message of
        None \<Rightarrow>
          (\<lparr>status = 400, success = False, error = Some (js ''No message provided''),
            reply = js ''Please send a message.'', engine = None, timestamp = None\<rparr>, s)
      | Some msg \<Rightarrow>
          if msg = [] \<or> js_trim msg = []
          then
            (\<lparr>status = 400, success = False, error = Some (js ''No message provided''),
              reply = js ''Please send a message.'', engine = None, timestamp = None\<rparr>, s)
          else if length msg > 1000
          then
            (\<lparr>status = 400, success = False, error = Some (js ''Message too long''),
              reply = js ''Please keep your question under 1000 characters.'', engine = None,
              timestamp = None\<rparr>, s)
          else if (case key of None \<Rightarrow> False
                   | Some k \<Rightarrow> k \<noteq> [] \<and> k \<noteq> js ''YOUR_GEMINI_API_KEY_HERE'')
          then
            (case getChatbotResponse key sendMessage responseText msg history s of
               (Inr text, s') \<Rightarrow>
                 (\<lparr>status = 200, success = True, error = None, reply = text,
                   engine = Some (js ''gemini''), timestamp = Some (isoNow s')\<rparr>, s')
             | (Inl aiError, s') \<Rightarrow>
                 (\<lparr>status = 200, success = True, error = None,
                   reply = getRuleBasedResponse toLowerCase msg,
                   engine = Some (js ''rule-based''), timestamp = Some (isoNow s')\<rparr>, s'))
          else
            (\<lparr>status = 200, success = True, error = None,
              reply = getRuleBasedResponse toLowerCase msg,
              engine = Some (js ''rule-based''), timestamp = Some (isoNow s)\<rparr>, s))"

section \<open>The specification's wording\<close>

text \<open>
  These definitions follow the specification's sentences, not the code, and serve only
  to compare the two. "Case-insensitive" is read over the ASCII letters.
\<close>

definition ascii_lower :: "16 word \<Rightarrow> 16 word" where
  "ascii_lower c = (if 0x41 \<le> c \<and> c \<le> 0x5A then c + 0x20 else c)"

definition includes_ci :: "jsstring \<Rightarrow> jsstring \<Rightarrow> bool" where
  "includes_ci s t = js_includes (map ascii_lower s) (map ascii_lower t)"

text \<open>
  "transient-quota: the message contains any of: an HTTP 429 indicator, the word quota,
  the phrase too many (case-insensitive), or an explicit resource exhausted marker";
  "not-found: the message contains an HTTP 404 indicator or the phrase not found
  (case-insensitive)".
\<close>

definition stated_transient_quota :: "jsstring \<Rightarrow> bool" where
  "stated_transient_quota msg \<longleftrightarrow>
     js_includes msg (js ''429'') \<or> js_includes msg (js ''quota'') \<or>
     includes_ci msg (js ''too many'') \<or> js_includes msg (js ''RESOURCE_EXHAUSTED'')"

definition stated_not_found :: "jsstring \<Rightarrow> bool" where
  "stated_not_found msg \<longleftrightarrow>
     js_includes msg (js ''404'') \<or> includes_ci msg (js ''not found'')"

text \<open>
  "Messages containing 429 classify as transient-quota; messages containing 404 or not
  found classify as not-found; all other messages classify as fatal."
\<close>

definition stated_classification :: "jsstring \<Rightarrow> classification" where
  "stated_classification msg =
     (if js_includes msg (js ''429'') then TransientQuota
      else if js_includes msg (js ''404'') \<or> js_includes msg (js ''not found'') then NotFound
      else Fatal)"

text \<open>
  "Exactly one successful outcome is returned per cascade invocation, or exactly one
  aggregate failure": the two kinds of outcome this sentence names.
\<close>

fun is_success :: "cascade_failure + 'r winner \<Rightarrow> bool" where
  "is_success (Inr w) = True"
| "is_success (Inl failure) = False"

fun is_aggregate_failure :: "cascade_failure + 'r winner \<Rightarrow> bool" where
  "is_aggregate_failure (Inl (Exhausted e)) = True"
| "is_aggregate_failure (Inl (Rethrown e)) = False"
| "is_aggregate_failure (Inr w) = False"

section \<open>Operations used in the examples\<close>

text \<open>An operation that rejects every call with the same message.\<close>

definition always_fails :: "jsstring \<Rightarrow> ('s, 'r) operation" where
  "always_fails msg m s = (Inl (new_Error msg), s)"

text \<open>
  Models \<^verbatim>\<open>m1\<close> and \<^verbatim>\<open>m2\<close> are over quota and \<^verbatim>\<open>m3\<close> answers; the state counts
  the requests sent.
\<close>

definition quota_then_ok :: "(nat, jsstring) operation" where
  "quota_then_ok m n =
     (if m = js ''m1'' then (Inl (new_Error (js ''429 Too Many Requests'')), Suc n)
      else if m = js ''m2'' then (Inl (new_Error (js ''RESOURCE_EXHAUSTED'')), Suc n)
      else (Inr (js ''OK''), Suc n))"

text \<open>An operation that answers every call; the state counts the requests sent.\<close>

definition answers_ok :: "(nat, jsstring) operation" where
  "answers_ok m n = (Inr (js ''OK''), Suc n)"

section \<open>Auxiliary lemmas\<close>


lemma js_includes_iff: "js_includes s t \<longleftrightarrow> (\<exists>p q. s = p @ t @ q)"
proof (induction s)
  case Nil
  then show ?case by auto
next
  case (Cons c s)
  show ?case
  proof
    assume "js_includes (c # s) t"
    then consider "prefix t (c # s)" | "js_includes s t" by auto
    then show "\<exists>p q. c # s = p @ t @ q"
    proof cases
      case 1
      then obtain q where "c # s = t @ q" by (auto simp: prefix_def)
      then have "c # s = [] @ t @ q" by simp
      then show ?thesis by blast
    next
      case 2
      with Cons.IH obtain p q where "s = p @ t @ q" by blast
      then have "c # s = (c # p) @ t @ q" by simp
      then show ?thesis by blast
    qed
  next
    assume "\<exists>p q. c # s = p @ t @ q"
    then obtain p q where pq: "c # s = p @ t @ q" by blast
    show "js_includes (c # s) t"
    proof (cases p)
      case Nil
      with pq have "prefix t (c # s)" by (simp add: prefix_def)
      then show ?thesis by simp
    next
      case (Cons a p')
      with pq have "s = p' @ t @ q" by simp
      with Cons.IH have "js_includes s t" by blast
      then show ?thesis by simp
    qed
  qed
qed

lemma traced_Inl: "fn m s = (Inl e, s') \<Longrightarrow> traced fn m (s, tr) = (Inl e, (s', tr @ [m]))"
  by (simp add: traced_def)

lemma traced_Inr: "fn m s = (Inr r, s') \<Longrightarrow> traced fn m (s, tr) = (Inr r, (s', tr @ [m]))"
  by (simp add: traced_def)

lemma fail_run_length: "fail_run P fn ms s = Some (errs, s1) \<Longrightarrow> length errs = length ms"
  by (induction ms arbitrary: s errs) (auto split: prod.splits sum.splits if_splits option.splits)

lemma fail_run_skips:
  assumes "fail_run P fn ms s = Some (errs, s1)" and "\<And>e. P e \<Longrightarrow> skippable e"
  shows "tryModels_loop fn errors (ms @ rest) s =
         tryModels_loop fn (errors @ map2 skip_detail ms errs) rest s1"
  using assms(1)
proof (induction ms arbitrary: s errs errors)
  case Nil
  then show ?case by simp
next
  case (Cons m ms)
  from Cons.prems obtain e s' errs' where
    step: "fn m s = (Inl e, s')" and pe: "P e"
    and rest: "fail_run P fn ms s' = Some (errs', s1)" and errs: "errs = e # errs'"
    by (auto split: prod.splits sum.splits if_splits option.splits)
  from pe assms(2) have "isQuotaError e \<or> isNotFoundError e" by (simp add: skippable_def)
  with step have "tryModels_loop fn errors ((m # ms) @ rest) s =
                  tryModels_loop fn (errors @ [skip_detail m e]) (ms @ rest) s'"
    by simp
  also have "\<dots> = tryModels_loop fn ((errors @ [skip_detail m e]) @ map2 skip_detail ms errs') rest s1"
    by (rule Cons.IH [OF rest])
  finally show ?case by (simp add: errs)
qed

lemma fail_run_traced:
  "fail_run P (traced fn) ms (s, tr) =
     map_option (\<lambda>(errs, s'). (errs, (s', tr @ ms))) (fail_run P fn ms s)"
proof (induction ms arbitrary: s tr)
  case Nil
  then show ?case by simp
next
  case (Cons m ms)
  show ?case
  proof (cases "fn m s")
    case (Pair r s')
    show ?thesis
    proof (cases r)
      case (Inl e)
      with Pair have "traced fn m (s, tr) = (Inl e, (s', tr @ [m]))" by (simp add: traced_Inl)
      with Pair Inl show ?thesis by (auto simp: Cons.IH split: option.splits)
    next
      case (Inr res)
      with Pair have "traced fn m (s, tr) = (Inr res, (s', tr @ [m]))" by (simp add: traced_Inr)
      with Pair Inr show ?thesis by simp
    qed
  qed
qed

lemma loop_traced_plain:
  "tryModels_loop (traced fn) errors ms (s, tr) = (out, (s', calls)) \<Longrightarrow>
   tryModels_loop fn errors ms s = (out, s')"
proof (induction ms arbitrary: errors s tr)
  case Nil
  then show ?case by simp
next
  case (Cons m ms)
  obtain r s1 where step: "fn m s = (r, s1)" by (cases "fn m s")
  then have tstep: "traced fn m (s, tr) = (r, (s1, tr @ [m]))" by (simp add: traced_def)
  show ?case
  proof (cases r)
    case (Inr res)
    with Cons.prems step tstep show ?thesis by simp
  next
    case (Inl e)
    show ?thesis
    proof (cases "isQuotaError e \<or> isNotFoundError e")
      case True
      with Cons.prems Inl tstep
      have "tryModels_loop (traced fn) (errors @ [skip_detail m e]) ms (s1, tr @ [m]) =
            (out, (s', calls))" by simp
      then have "tryModels_loop fn (errors @ [skip_detail m e]) ms s1 = (out, s')"
        by (rule Cons.IH)
      with True Inl step show ?thesis by simp
    next
      case False
      with Cons.prems Inl step tstep show ?thesis by simp
    qed
  qed
qed

lemma loop_traced_cases:
  assumes "tryModels_loop (traced fn) errors ms (s, tr) = (out, (s', calls))"
  shows "(\<exists>r pre m post errs s1.
            out = Inr \<lparr>result = r, modelName = m\<rparr> \<and> ms = pre @ m # post \<and>
            calls = tr @ pre @ [m] \<and> fail_run skippable fn pre s = Some (errs, s1) \<and>
            fn m s1 = (Inr r, s'))
       \<or> (\<exists>e pre m post errs s1.
            out = Inl (Rethrown e) \<and> ms = pre @ m # post \<and>
            calls = tr @ pre @ [m] \<and> fail_run skippable fn pre s = Some (errs, s1) \<and>
            fn m s1 = (Inl e, s') \<and> classify e = Fatal)
       \<or> (\<exists>errs.
            out = Inl (Exhausted (new_Error
                    (all_exhausted_message (errors @ map2 skip_detail ms errs)))) \<and>
            calls = tr @ ms \<and> fail_run skippable fn ms s = Some (errs, s'))"
  using assms
proof (induction ms arbitrary: errors s tr)
  case Nil
  then show ?case by auto
next
  case (Cons m ms)
  obtain x s1 where step: "fn m s = (x, s1)" by (cases "fn m s")
  then have tstep: "traced fn m (s, tr) = (x, (s1, tr @ [m]))" by (simp add: traced_def)
  show ?case
  proof (cases x)
    case (Inr res)
    with Cons.prems step tstep
    have "out = Inr \<lparr>result = res, modelName = m\<rparr> \<and> m # ms = [] @ m # ms \<and>
          calls = tr @ [] @ [m] \<and> fail_run skippable fn [] s = Some ([], s) \<and>
          fn m s = (Inr res, s')" by simp
    then show ?thesis by blast
  next
    case (Inl e)
    show ?thesis
    proof (cases "skippable e")
      case False
      then have "classify e = Fatal" by (simp add: classify_def skippable_def)
      with False Cons.prems step tstep Inl
      have "out = Inl (Rethrown e) \<and> m # ms = [] @ m # ms \<and>
            calls = tr @ [] @ [m] \<and> fail_run skippable fn [] s = Some ([], s) \<and>
            fn m s = (Inl e, s') \<and> classify e = Fatal" by (simp add: skippable_def)
      then show ?thesis by blast
    next
      case True
      with Cons.prems Inl tstep
      have run: "tryModels_loop (traced fn) (errors @ [skip_detail m e]) ms (s1, tr @ [m]) =
            (out, (s', calls))" by (simp add: skippable_def)
      from Cons.IH [OF run] consider
        (succ) r pre m' post errs s2 where
          "out = Inr \<lparr>result = r, modelName = m'\<rparr>" "ms = pre @ m' # post"
          "calls = (tr @ [m]) @ pre @ [m']" "fail_run skippable fn pre s1 = Some (errs, s2)"
          "fn m' s2 = (Inr r, s')"
      | (fatal) e' pre m' post errs s2 where
          "out = Inl (Rethrown e')" "ms = pre @ m' # post"
          "calls = (tr @ [m]) @ pre @ [m']" "fail_run skippable fn pre s1 = Some (errs, s2)"
          "fn m' s2 = (Inl e', s')" "classify e' = Fatal"
      | (exh) errs where
          "out = Inl (Exhausted (new_Error
             (all_exhausted_message ((errors @ [skip_detail m e]) @ map2 skip_detail ms errs))))"
          "calls = (tr @ [m]) @ ms" "fail_run skippable fn ms s1 = Some (errs, s')"
        by blast
      then show ?thesis
      proof cases
        case succ
        with True step Inl
        have "out = Inr \<lparr>result = r, modelName = m'\<rparr> \<and> m # ms = (m # pre) @ m' # post \<and>
              calls = tr @ (m # pre) @ [m'] \<and>
              fail_run skippable fn (m # pre) s = Some (e # errs, s2) \<and>
              fn m' s2 = (Inr r, s')" by simp
        then show ?thesis by blast
      next
        case fatal
        with True step Inl
        have "out = Inl (Rethrown e') \<and> m # ms = (m # pre) @ m' # post \<and>
              calls = tr @ (m # pre) @ [m'] \<and>
              fail_run skippable fn (m # pre) s = Some (e # errs, s2) \<and>
              fn m' s2 = (Inl e', s') \<and> classify e' = Fatal" by simp
        then show ?thesis by blast
      next
        case exh
        with True step Inl
        have "out = Inl (Exhausted (new_Error
                (all_exhausted_message (errors @ map2 skip_detail (m # ms) (e # errs))))) \<and>
              calls = tr @ m # ms \<and> fail_run skippable fn (m # ms) s = Some (e # errs, s')"
          by simp
        then show ?thesis by blast
      qed
    qed
  qed
qed

lemma loop_traced_prefix:
  "tryModels_loop (traced fn) errors ms (s, tr) = (out, (s', calls)) \<Longrightarrow>
   \<exists>k. k \<le> length ms \<and> calls = tr @ take k ms"
proof (induction ms arbitrary: errors s tr)
  case Nil
  then show ?case by simp
next
  case (Cons m ms)
  obtain x s1 where step: "fn m s = (x, s1)" by (cases "fn m s")
  then have tstep: "traced fn m (s, tr) = (x, (s1, tr @ [m]))" by (simp add: traced_def)
  have one: "calls = tr @ [m] \<Longrightarrow> ?case"
  proof -
    assume "calls = tr @ [m]"
    then have "Suc 0 \<le> length (m # ms) \<and> calls = tr @ take (Suc 0) (m # ms)" by simp
    then show ?case by blast
  qed
  show ?case
  proof (cases x)
    case (Inr res)
    with Cons.prems tstep show ?thesis by (auto intro: one)
  next
    case (Inl e)
    show ?thesis
    proof (cases "isQuotaError e \<or> isNotFoundError e")
      case False
      with Cons.prems tstep Inl show ?thesis by (auto intro: one)
    next
      case True
      with Cons.prems Inl tstep
      have "tryModels_loop (traced fn) (errors @ [skip_detail m e]) ms (s1, tr @ [m]) =
            (out, (s', calls))" by simp
      from Cons.IH [OF this] obtain k where "k \<le> length ms" "calls = (tr @ [m]) @ take k ms"
        by blast
      then have "Suc k \<le> length (m # ms) \<and> calls = tr @ take (Suc k) (m # ms)" by simp
      then show ?thesis by blast
    qed
  qed
qed

lemma getRuleBasedResponse_Hi:
  "getRuleBasedResponse (map ascii_lower) (js ''Hi'') =
     js ''Hello! I'm your AI Medical Assistant powered by Google Gemini. '' @
     js ''I can answer questions about pulmonary nodules, CT scans, treatment options, and more. '' @
     js ''How can I help you today?''"
  by (simp add: getRuleBasedResponse_def knowledgeBase_def js_trim_def isWhiteSpace_def
      ascii_lower_def js_def)

lemma key_configured_iff:
  "(case key of None \<Rightarrow> False | Some k \<Rightarrow> k \<noteq> [] \<and> k \<noteq> js ''YOUR_GEMINI_API_KEY_HERE'') =
   (\<not> key_missing key)"
  by (simp add: key_missing_def split: option.splits)

lemma getChatbotResponse_key_missing:
  "key_missing key \<Longrightarrow>
   getChatbotResponse key sendMessage responseText msg hist s =
     (Inl (new_Error (js ''GEMINI_API_KEY not configured'')), s)"
  by (simp add: getChatbotResponse_def)

section \<open>Properties of the cascade\<close>

text \<open>
  C1. When the operation fails with an error classified transient-quota on each of the
  candidates \<open>ms\<close> in turn and then succeeds on \<open>m\<close>, the cascade over \<open>ms @ [m]\<close>
  returns that result paired with \<open>m\<close>, and the operation has been invoked on exactly
  the candidates of the list, once each and in list order.
\<close>

theorem tryModels_quota_then_success:
  assumes "fail_run (\<lambda>e. classify e = TransientQuota) fn ms s = Some (errs, s1)"
    and "fn m s1 = (Inr r, s2)"
  shows "tryModels (ms @ [m]) fn s = (Inr \<lparr>result = r, modelName = m\<rparr>, s2) \<and>
         tryModels (ms @ [m]) (traced fn) (s, []) =
           (Inr \<lparr>result = r, modelName = m\<rparr>, (s2, ms @ [m]))"
proof -
  have q: "\<And>e. classify e = TransientQuota \<Longrightarrow> skippable e"
    by (auto simp: classify_def skippable_def split: if_splits)
  have "tryModels_loop fn [] (ms @ [m]) s = tryModels_loop fn ([] @ map2 skip_detail ms errs) [m] s1"
    by (rule fail_run_skips [OF assms(1) q])
  with assms(2) have plain: "tryModels (ms @ [m]) fn s = (Inr \<lparr>result = r, modelName = m\<rparr>, s2)"
    by (simp add: tryModels_def)
  from assms(1)
  have t1: "fail_run (\<lambda>e. classify e = TransientQuota) (traced fn) ms (s, []) = Some (errs, (s1, ms))"
    by (simp add: fail_run_traced)
  have t2: "traced fn m (s1, ms) = (Inr r, (s2, ms @ [m]))"
    using assms(2) by (rule traced_Inr)
  have "tryModels_loop (traced fn) [] (ms @ [m]) (s, []) =
        tryModels_loop (traced fn) ([] @ map2 skip_detail ms errs) [m] (s1, ms)"
    by (rule fail_run_skips [OF t1 q])
  with t2 have "tryModels (ms @ [m]) (traced fn) (s, []) =
                (Inr \<lparr>result = r, modelName = m\<rparr>, (s2, ms @ [m]))"
    by (simp add: tryModels_def)
  with plain show ?thesis by simp
qed

text \<open>Three candidates: two over quota, the third answers after three requests.\<close>

theorem tryModels_quota_then_success_witness:
  "tryModels [js ''m1'', js ''m2'', js ''m3''] quota_then_ok 0 =
     (Inr \<lparr>result = js ''OK'', modelName = js ''m3''\<rparr>, 3) \<and>
   tryModels [js ''m1'', js ''m2'', js ''m3''] (traced quota_then_ok) (0, []) =
     (Inr \<lparr>result = js ''OK'', modelName = js ''m3''\<rparr>, (3, [js ''m1'', js ''m2'', js ''m3'']))"
proof -
  have h1: "fail_run (\<lambda>e. classify e = TransientQuota) quota_then_ok [js ''m1'', js ''m2''] 0 =
            Some ([new_Error (js ''429 Too Many Requests''), new_Error (js ''RESOURCE_EXHAUSTED'')],
                  Suc (Suc 0))"
    by (simp add: quota_then_ok_def classify_def isQuotaError_def new_Error_def js_def)
  have h2: "quota_then_ok (js ''m3'') (Suc (Suc 0)) = (Inr (js ''OK''), 3)"
    by (simp add: quota_then_ok_def js_def)
  from tryModels_quota_then_success [OF h1 h2] show ?thesis by simp
qed

text \<open>
  C2. When the operation fails on the first candidate with an error classified fatal,
  the cascade throws that very error, the operation has been invoked once, on that
  candidate, and no later candidate is attempted.
\<close>

theorem tryModels_fatal_first:
  assumes "fn m s = (Inl e, s')" and "classify e = Fatal"
  shows "tryModels (m # ms) fn s = (Inl (Rethrown e), s') \<and>
         thrown (Rethrown e) = e \<and>
         tryModels (m # ms) (traced fn) (s, []) = (Inl (Rethrown e), (s', [m]))"
proof -
  from assms(2) have ns: "\<not> (isQuotaError e \<or> isNotFoundError e)"
    by (auto simp: classify_def split: if_splits)
  from assms(1) have "traced fn m (s, []) = (Inl e, (s', [] @ [m]))" by (rule traced_Inl)
  with assms(1) ns show ?thesis by (simp add: tryModels_def)
qed

theorem tryModels_fatal_first_witness:
  "tryModels [js ''m1'', js ''m2'']
       (always_fails (js ''invalid request schema'') :: (nat, jsstring) operation) 0 =
     (Inl (Rethrown (new_Error (js ''invalid request schema''))), 0) \<and>
   tryModels [js ''m1'', js ''m2'']
       (traced (always_fails (js ''invalid request schema'') :: (nat, jsstring) operation))
       (0, []) =
     (Inl (Rethrown (new_Error (js ''invalid request schema''))), (0, [js ''m1'']))"
proof -
  have h1: "(always_fails (js ''invalid request schema'') :: (nat, jsstring) operation)
              (js ''m1'') 0 =
            (Inl (new_Error (js ''invalid request schema'')), 0)"
    by (simp add: always_fails_def)
  have h2: "classify (new_Error (js ''invalid request schema'')) = Fatal"
    by (simp add: classify_def isQuotaError_def isNotFoundError_def new_Error_def js_def)
  from tryModels_fatal_first
      [where fn = "always_fails (js ''invalid request schema'') :: (nat, jsstring) operation"
        and m = "js ''m1''" and s = 0 and ms = "[js ''m2'']", OF h1 h2]
  show ?thesis by simp
qed

text \<open>
  C3. Two candidates that both fail with \<^verbatim>\<open>RESOURCE_EXHAUSTED\<close>: the error is a quota
  error for \<open>isQuotaError\<close>, the cascade is exhausted, and the details of the
  aggregate message record \<^verbatim>\<open>not found\<close> for both candidates, because the recorded
  reason tests the message for \<^verbatim>\<open>429\<close> only.
\<close>

theorem tryModels_resource_exhausted_details:
  "classify (new_Error (js ''RESOURCE_EXHAUSTED'')) = TransientQuota \<and>
   tryModels [js ''m1'', js ''m2'']
       (always_fails (js ''RESOURCE_EXHAUSTED'') :: (nat, jsstring) operation) 0 =
     (Inl (Exhausted (new_Error
        (js ''All Gemini models quota-exceeded. Please wait a minute and try again.'' @ [0x000A] @
         js ''Details: m1: not found | m2: not found'' @ [0x000A] @
         js ''Free tier allows 15'' @ [0x2013] @
         js ''30 req/min. If you sent many requests in a row, wait 60 seconds.''))), 0)"
  by (simp add: tryModels_def always_fails_def classify_def isQuotaError_def isNotFoundError_def
      new_Error_def skip_detail_def all_exhausted_message_def js_def)

text \<open>
  C4, as the code has it. The classification is transient-quota exactly when the message
  contains \<^verbatim>\<open>429\<close>, \<^verbatim>\<open>Too Many\<close>, \<^verbatim>\<open>quota\<close> or \<^verbatim>\<open>RESOURCE_EXHAUSTED\<close>; not-found
  exactly when it contains none of these and contains \<^verbatim>\<open>404\<close> or \<^verbatim>\<open>not found\<close>;
  fatal exactly when it contains none of the six. Every match is case-sensitive. The
  cascade skips a candidate exactly when its error is not fatal.
\<close>

theorem classify_markers:
  "(classify err = TransientQuota) =
     (js_includes (message err) (js ''429'') \<or> js_includes (message err) (js ''Too Many'') \<or>
      js_includes (message err) (js ''quota'') \<or>
      js_includes (message err) (js ''RESOURCE_EXHAUSTED'')) \<and>
   (classify err = NotFound) =
     (\<not> (js_includes (message err) (js ''429'') \<or> js_includes (message err) (js ''Too Many'') \<or>
         js_includes (message err) (js ''quota'') \<or>
         js_includes (message err) (js ''RESOURCE_EXHAUSTED'')) \<and>
      (js_includes (message err) (js ''404'') \<or> js_includes (message err) (js ''not found''))) \<and>
   (classify err = Fatal) =
     (\<not> (js_includes (message err) (js ''429'') \<or> js_includes (message err) (js ''Too Many'') \<or>
         js_includes (message err) (js ''quota'') \<or>
         js_includes (message err) (js ''RESOURCE_EXHAUSTED'') \<or>
         js_includes (message err) (js ''404'') \<or> js_includes (message err) (js ''not found''))) \<and>
   (isQuotaError err \<or> isNotFoundError err) = (classify err \<noteq> Fatal)"
  by (auto simp: classify_def isQuotaError_def isNotFoundError_def)

theorem classify_markers_witness:
  "classify (new_Error (js ''429 Too Many Requests'')) = TransientQuota"
  using classify_markers [of "new_Error (js ''429 Too Many Requests'')"]
  by (simp add: new_Error_def js_def)

text \<open>
  The stated rule fails on the code: a lower-case \<^verbatim>\<open>too many\<close> and an upper-case
  \<^verbatim>\<open>Not Found\<close> are fatal, and a message with both a quota and a not-found marker is
  a quota error, not a not-found error.
\<close>

theorem classify_markers_counterexample:
  "stated_transient_quota (js ''too many requests'') \<and>
   classify (new_Error (js ''too many requests'')) = Fatal \<and>
   stated_not_found (js ''Model Not Found'') \<and>
   classify (new_Error (js ''Model Not Found'')) = Fatal \<and>
   stated_not_found (js ''quota 404'') \<and>
   classify (new_Error (js ''quota 404'')) = TransientQuota"
  by (simp add: stated_transient_quota_def stated_not_found_def includes_ci_def ascii_lower_def
      classify_def isQuotaError_def isNotFoundError_def new_Error_def js_def)

text \<open>
  C5, as the code has it. A cascade ends in exactly one of three ways. It returns a
  result paired with the winning candidate \<open>m\<close>: every candidate before \<open>m\<close> was
  skipped and the operation succeeded on \<open>m\<close>. Or it rethrows the error \<open>e\<close> of a
  fatal abort, unchanged and with no aggregate detail: every candidate before \<open>m\<close> was
  skipped and the operation failed on \<open>m\<close> with \<open>e\<close>, classified fatal. Or it throws
  the aggregate failure: the operation was invoked on the whole list and every candidate
  was skipped. The log \<open>calls\<close> of the invocations tells the last case from the other
  two, and the instrumented run returns what the plain run returns.
\<close>

theorem tryModels_outcome:
  assumes "tryModels ms (traced fn) (s, []) = (out, (s', calls))"
  shows "tryModels ms fn s = (out, s') \<and>
       ((\<exists>r pre m post errs s1.
            out = Inr \<lparr>result = r, modelName = m\<rparr> \<and> ms = pre @ m # post \<and>
            calls = pre @ [m] \<and> fail_run skippable fn pre s = Some (errs, s1) \<and>
            fn m s1 = (Inr r, s'))
       \<or> (\<exists>e pre m post errs s1.
            out = Inl (Rethrown e) \<and> ms = pre @ m # post \<and>
            calls = pre @ [m] \<and> fail_run skippable fn pre s = Some (errs, s1) \<and>
            fn m s1 = (Inl e, s') \<and> classify e = Fatal)
       \<or> (\<exists>errs.
            out = Inl (Exhausted (new_Error (all_exhausted_message (map2 skip_detail ms errs)))) \<and>
            calls = ms \<and> fail_run skippable fn ms s = Some (errs, s')))"
proof -
  from assms have loop: "tryModels_loop (traced fn) [] ms (s, []) = (out, (s', calls))"
    by (simp add: tryModels_def)
  from loop_traced_plain [OF loop] have "tryModels ms fn s = (out, s')"
    by (simp add: tryModels_def)
  moreover from loop_traced_cases [OF loop] have
    "(\<exists>r pre m post errs s1.
            out = Inr \<lparr>result = r, modelName = m\<rparr> \<and> ms = pre @ m # post \<and>
            calls = pre @ [m] \<and> fail_run skippable fn pre s = Some (errs, s1) \<and>
            fn m s1 = (Inr r, s'))
       \<or> (\<exists>e pre m post errs s1.
            out = Inl (Rethrown e) \<and> ms = pre @ m # post \<and>
            calls = pre @ [m] \<and> fail_run skippable fn pre s = Some (errs, s1) \<and>
            fn m s1 = (Inl e, s') \<and> classify e = Fatal)
       \<or> (\<exists>errs.
            out = Inl (Exhausted (new_Error (all_exhausted_message (map2 skip_detail ms errs)))) \<and>
            calls = ms \<and> fail_run skippable fn ms s = Some (errs, s'))"
    by simp
  ultimately show ?thesis by simp
qed

text \<open>
  Two candidates over quota: the run is exhausted after both, and the aggregate message
  is built from the two recorded entries.
\<close>

theorem tryModels_outcome_witness:
  "tryModels [js ''m1'', js ''m2''] (traced quota_then_ok) (0, []) =
     (Inl (Exhausted (new_Error
        (all_exhausted_message [js ''m1: quota exceeded'', js ''m2: not found'']))),
      (2, [js ''m1'', js ''m2''])) \<and>
   tryModels [js ''m1'', js ''m2''] quota_then_ok 0 =
     (Inl (Exhausted (new_Error
        (all_exhausted_message [js ''m1: quota exceeded'', js ''m2: not found'']))), 2)"
proof -
  have run: "tryModels [js ''m1'', js ''m2''] (traced quota_then_ok) (0, []) =
     (Inl (Exhausted (new_Error
        (all_exhausted_message [js ''m1: quota exceeded'', js ''m2: not found'']))),
      (2, [js ''m1'', js ''m2'']))"
    by (simp add: tryModels_def traced_def quota_then_ok_def isQuotaError_def skip_detail_def
        new_Error_def js_def)
  from tryModels_outcome [OF run] have
    "tryModels [js ''m1'', js ''m2''] quota_then_ok 0 =
     (Inl (Exhausted (new_Error
        (all_exhausted_message [js ''m1: quota exceeded'', js ''m2: not found'']))), 2)"
    by (rule conjunct1)
  with run show ?thesis by simp
qed

text \<open>
  A fatal abort on the first of two candidates: the outcome is neither a successful pair
  nor an aggregate failure.
\<close>

theorem tryModels_outcome_counterexample:
  "tryModels [js ''m1'', js ''m2'']
       (always_fails (js ''invalid request schema'') :: (nat, jsstring) operation) 0 =
     (Inl (Rethrown (new_Error (js ''invalid request schema''))), 0) \<and>
   \<not> is_success (fst (tryModels [js ''m1'', js ''m2'']
       (always_fails (js ''invalid request schema'') :: (nat, jsstring) operation) 0)) \<and>
   \<not> is_aggregate_failure (fst (tryModels [js ''m1'', js ''m2'']
       (always_fails (js ''invalid request schema'') :: (nat, jsstring) operation) 0))"
  by (simp add: tryModels_def always_fails_def isQuotaError_def isNotFoundError_def
      new_Error_def js_def)

text \<open>
  C6. The candidates on which the operation is invoked, in the order of the invocations,
  are an initial segment of the candidate list: each candidate is attempted at most
  once, in list order, and none is attempted again after it has failed. The
  instrumented run returns what the plain run returns.
\<close>

theorem tryModels_in_order:
  "prefix (snd (snd (tryModels ms (traced fn) (s, [])))) ms \<and>
   fst (tryModels ms (traced fn) (s, [])) = fst (tryModels ms fn s) \<and>
   fst (snd (tryModels ms (traced fn) (s, []))) = snd (tryModels ms fn s)"
proof -
  obtain out s' calls where run: "tryModels ms (traced fn) (s, []) = (out, (s', calls))"
    by (metis surj_pair)
  then have loop: "tryModels_loop (traced fn) [] ms (s, []) = (out, (s', calls))"
    by (simp add: tryModels_def)
  from loop_traced_prefix [OF loop] obtain k where "calls = take k ms" by auto
  then have "prefix calls ms" by (simp add: take_is_prefix)
  moreover from loop_traced_plain [OF loop] have "tryModels ms fn s = (out, s')"
    by (simp add: tryModels_def)
  ultimately show ?thesis using run by simp
qed

theorem tryModels_in_order_witness:
  "prefix (snd (snd (tryModels [js ''m1'', js ''m2'', js ''m3''] (traced quota_then_ok) (0, []))))
     [js ''m1'', js ''m2'', js ''m3'']"
  using tryModels_in_order [of "[js ''m1'', js ''m2'', js ''m3'']" quota_then_ok 0] by simp

text \<open>
  C7, as the code has it. The classification depends on the message text alone. A message
  containing \<^verbatim>\<open>429\<close> is transient-quota; a message containing \<^verbatim>\<open>404\<close> or
  \<^verbatim>\<open>not found\<close> and none of \<^verbatim>\<open>429\<close>, \<^verbatim>\<open>Too Many\<close>, \<^verbatim>\<open>quota\<close>,
  \<^verbatim>\<open>RESOURCE_EXHAUSTED\<close> is not-found; a message containing none of the six markers
  is fatal.
\<close>

theorem classify_deterministic:
  "(message e1 = message e2 \<longrightarrow> classify e1 = classify e2) \<and>
   (js_includes (message err) (js ''429'') \<longrightarrow> classify err = TransientQuota) \<and>
   (\<not> js_includes (message err) (js ''429'') \<and> \<not> js_includes (message err) (js ''Too Many'') \<and>
    \<not> js_includes (message err) (js ''quota'') \<and>
    \<not> js_includes (message err) (js ''RESOURCE_EXHAUSTED'') \<and>
    (js_includes (message err) (js ''404'') \<or> js_includes (message err) (js ''not found''))
      \<longrightarrow> classify err = NotFound) \<and>
   (\<not> js_includes (message err) (js ''429'') \<and> \<not> js_includes (message err) (js ''Too Many'') \<and>
    \<not> js_includes (message err) (js ''quota'') \<and>
    \<not> js_includes (message err) (js ''RESOURCE_EXHAUSTED'') \<and>
    \<not> js_includes (message err) (js ''404'') \<and> \<not> js_includes (message err) (js ''not found'')
      \<longrightarrow> classify err = Fatal)"
  by (simp add: classify_def isQuotaError_def isNotFoundError_def)

theorem classify_deterministic_witness:
  "classify \<lparr>name = js ''GoogleGenerativeAIError'', message = js ''429 Too Many Requests''\<rparr> =
     classify (new_Error (js ''429 Too Many Requests'')) \<and>
   classify (new_Error (js ''429 Too Many Requests'')) = TransientQuota \<and>
   classify (new_Error (js ''model not found (404)'')) = NotFound \<and>
   classify (new_Error (js ''invalid request schema'')) = Fatal"
proof -
  have a: "message \<lparr>name = js ''GoogleGenerativeAIError'', message = js ''429 Too Many Requests''\<rparr> =
           message (new_Error (js ''429 Too Many Requests''))"
    by (simp add: new_Error_def)
  have b: "js_includes (message (new_Error (js ''429 Too Many Requests''))) (js ''429'')"
    by (simp add: new_Error_def js_def)
  have c: "\<not> js_includes (message (new_Error (js ''model not found (404)''))) (js ''429'') \<and>
           \<not> js_includes (message (new_Error (js ''model not found (404)''))) (js ''Too Many'') \<and>
           \<not> js_includes (message (new_Error (js ''model not found (404)''))) (js ''quota'') \<and>
           \<not> js_includes (message (new_Error (js ''model not found (404)''))) (js ''RESOURCE_EXHAUSTED'') \<and>
           (js_includes (message (new_Error (js ''model not found (404)''))) (js ''404'') \<or>
            js_includes (message (new_Error (js ''model not found (404)''))) (js ''not found''))"
    by (simp add: new_Error_def js_def)
  have d: "\<not> js_includes (message (new_Error (js ''invalid request schema''))) (js ''429'') \<and>
           \<not> js_includes (message (new_Error (js ''invalid request schema''))) (js ''Too Many'') \<and>
           \<not> js_includes (message (new_Error (js ''invalid request schema''))) (js ''quota'') \<and>
           \<not> js_includes (message (new_Error (js ''invalid request schema''))) (js ''RESOURCE_EXHAUSTED'') \<and>
           \<not> js_includes (message (new_Error (js ''invalid request schema''))) (js ''404'') \<and>
           \<not> js_includes (message (new_Error (js ''invalid request schema''))) (js ''not found'')"
    by (simp add: new_Error_def js_def)
  from a b
    classify_deterministic [of "\<lparr>name = js ''GoogleGenerativeAIError'', message = js ''429 Too Many Requests''\<rparr>"
      "new_Error (js ''429 Too Many Requests'')" "new_Error (js ''429 Too Many Requests'')"]
  have 1: "classify \<lparr>name = js ''GoogleGenerativeAIError'', message = js ''429 Too Many Requests''\<rparr> =
     classify (new_Error (js ''429 Too Many Requests'')) \<and>
     classify (new_Error (js ''429 Too Many Requests'')) = TransientQuota" by blast
  from c classify_deterministic [of "new_Error []" "new_Error []" "new_Error (js ''model not found (404)'')"]
  have 2: "classify (new_Error (js ''model not found (404)'')) = NotFound" by blast
  from d classify_deterministic [of "new_Error []" "new_Error []" "new_Error (js ''invalid request schema'')"]
  have 3: "classify (new_Error (js ''invalid request schema'')) = Fatal" by blast
  from 1 2 3 show ?thesis by simp
qed

text \<open>
  A message with \<^verbatim>\<open>quota\<close> and none of \<^verbatim>\<open>429\<close>, \<^verbatim>\<open>404\<close>, \<^verbatim>\<open>not found\<close> is
  fatal by the stated rule and transient-quota in the code.
\<close>

theorem classify_deterministic_counterexample:
  "stated_classification (js ''quota exceeded'') = Fatal \<and>
   classify (new_Error (js ''quota exceeded'')) = TransientQuota"
  by (simp add: stated_classification_def classify_def isQuotaError_def new_Error_def js_def)


section \<open>Properties of the callers\<close>

text \<open>
  C9. For a message that passes the handler's validation (not blank, at most 1000 code
  units), whenever \<^verbatim>\<open>getChatbotResponse\<close> throws, whatever the error, the handler
  answers with status 200, \<^verbatim>\<open>success: true\<close>, the rule-based reply and engine
  \<^verbatim>\<open>rule-based\<close>; nothing of the error reaches the response.
\<close>

theorem post_chatbot_falls_back:
  assumes "js_trim msg \<noteq> []" and "length msg \<le> 1000"
    and "getChatbotResponse key sendMessage responseText msg
           (case hist of None \<Rightarrow> [] | Some h \<Rightarrow> h) s = (Inl aiError, s')"
  shows "post_chatbot key toLowerCase sendMessage responseText isoNow (Some msg) hist s =
           (\<lparr>status = 200, success = True, error = None,
             reply = getRuleBasedResponse toLowerCase msg,
             engine = Some (js ''rule-based''), timestamp = Some (isoNow s')\<rparr>, s')"
proof -
  from assms(1) have ne: "msg \<noteq> []" by (auto simp: js_trim_def)
  show ?thesis
  proof (cases "key_missing key")
    case True
    with assms(3) have "s' = s" by (simp add: getChatbotResponse_key_missing)
    with True ne assms(1,2) show ?thesis
      by (simp add: post_chatbot_def key_configured_iff)
  next
    case False
    with ne assms show ?thesis
      by (simp add: post_chatbot_def key_configured_iff)
  qed
qed

text \<open>Every chat model is over quota: the cascade is exhausted and the handler falls back.\<close>

theorem post_chatbot_falls_back_witness:
  "post_chatbot (Some (js ''k'')) (map ascii_lower)
     (\<lambda>m h u. always_fails (js ''429 Too Many Requests'') m) (\<lambda>r::jsstring. Inr r)
     (\<lambda>n::nat. js ''2024-01-01T00:00:00.000Z'') (Some (js ''Hi'')) None 0 =
   (\<lparr>status = 200, success = True, error = None,
     reply =
       js ''Hello! I'm your AI Medical Assistant powered by Google Gemini. '' @
       js ''I can answer questions about pulmonary nodules, CT scans, treatment options, and more. '' @
       js ''How can I help you today?'',
     engine = Some (js ''rule-based''),
     timestamp = Some (js ''2024-01-01T00:00:00.000Z'')\<rparr>, 0)"
proof -
  have t: "js_trim (js ''Hi'') \<noteq> []"
    by (simp add: js_trim_def isWhiteSpace_def js_def)
  have l: "length (js ''Hi'') \<le> 1000"
    by (simp add: js_def)
  have g: "getChatbotResponse (Some (js ''k''))
             (\<lambda>m h u. always_fails (js ''429 Too Many Requests'') m) (\<lambda>r::jsstring. Inr r)
             (js ''Hi'') (case None of None \<Rightarrow> [] | Some h \<Rightarrow> h) (0::nat) =
           (Inl (new_Error (all_exhausted_message
              [js ''gemini-2.0-flash: quota exceeded'', js ''gemini-2.0-flash-lite: quota exceeded'',
               js ''gemini-2.5-flash: quota exceeded'',
               js ''gemini-flash-lite-latest: quota exceeded''])), 0)"
    by (simp add: getChatbotResponse_def key_missing_def tryModels_def CHAT_MODELS_def
        always_fails_def isQuotaError_def skip_detail_def new_Error_def js_def)
  from post_chatbot_falls_back [OF t l g, of "map ascii_lower" "\<lambda>n. js ''2024-01-01T00:00:00.000Z''"]
  show ?thesis by (simp only: getRuleBasedResponse_Hi)
qed

text \<open>
  C10. When the API key is absent, empty or the placeholder, \<^verbatim>\<open>getChatbotResponse\<close>
  and \<^verbatim>\<open>analyzeCTScan\<close> throw their configuration error in the state in which they
  were called: the log of the model calls is still empty, and no candidate was attempted.
\<close>

theorem key_missing_no_attempt:
  assumes "key_missing key"
  shows "getChatbotResponse key (\<lambda>m h u. traced (\<lambda>m. sendMessage m h u) m) responseText
           userMessage conversationHistory (s, []) =
           (Inl (new_Error (js ''GEMINI_API_KEY not configured'')), (s, [])) \<and>
         analyzeCTScan key readFileSync imagePart (\<lambda>m p. traced (\<lambda>m. generateContent m p) m)
           report imagePath (s, []) =
           (Inl (new_Error (js (''GEMINI_API_KEY is not configured. Please add your API key '' @
              ''to backend/.env. Get a FREE key at https://aistudio.google.com/app/apikey''))),
            (s, []))"
  using assms by (simp add: getChatbotResponse_def analyzeCTScan_def)

theorem key_missing_no_attempt_witness:
  "getChatbotResponse None (\<lambda>m h u. traced answers_ok m) Inr (js ''Hi'') [] (0, []) =
     (Inl (new_Error (js ''GEMINI_API_KEY not configured'')), (0, [])) \<and>
   analyzeCTScan (Some (js ''YOUR_GEMINI_API_KEY_HERE'')) (\<lambda>p st. (Inr p, st)) (\<lambda>p b. b)
     (\<lambda>m p. traced answers_ok m) (\<lambda>w st. (Inr (result w), st)) (js ''scan.png'') (0, []) =
     (Inl (new_Error (js (''GEMINI_API_KEY is not configured. Please add your API key '' @
        ''to backend/.env. Get a FREE key at https://aistudio.google.com/app/apikey''))),
      (0, []))"
proof -
  have a: "key_missing None" by (simp add: key_missing_def)
  have b: "key_missing (Some (js ''YOUR_GEMINI_API_KEY_HERE''))" by (simp add: key_missing_def)
  from key_missing_no_attempt [OF a, where sendMessage = "\<lambda>m h u. answers_ok m"
      and responseText = Inr and userMessage = "js ''Hi''" and conversationHistory = "[]"
      and s = 0, THEN conjunct1]
  have 1: "getChatbotResponse None (\<lambda>m h u. traced answers_ok m) Inr (js ''Hi'') [] (0, []) =
     (Inl (new_Error (js ''GEMINI_API_KEY not configured'')), (0, []))" by simp
  from key_missing_no_attempt [OF b, where generateContent = "\<lambda>m p. answers_ok m"
      and readFileSync = "\<lambda>p st. (Inr p, st)" and imagePart = "\<lambda>p b. b"
      and report = "\<lambda>w st. (Inr (result w), st)" and imagePath = "js ''scan.png''" and s = 0,
      THEN conjunct2]
  have 2: "analyzeCTScan (Some (js ''YOUR_GEMINI_API_KEY_HERE'')) (\<lambda>p st. (Inr p, st)) (\<lambda>p b. b)
     (\<lambda>m p. traced answers_ok m) (\<lambda>w st. (Inr (result w), st)) (js ''scan.png'') (0, []) =
     (Inl (new_Error (js (''GEMINI_API_KEY is not configured. Please add your API key '' @
        ''to backend/.env. Get a FREE key at https://aistudio.google.com/app/apikey''))),
      (0, []))" by simp
  from 1 2 show ?thesis by simp
qed

end
